theory Spec2Isabelle
  imports Main
begin

section \<open>Python values\<close>

text \<open>
  The backend of \<^verbatim>\<open>lwe/core/backend.py\<close> is dynamically typed: an override payload is a
  dictionary whose values are strings, booleans, nested dictionaries, callbacks and so on.
  The values that reach the code are modelled by one datatype. A dictionary is an
  association list in insertion order with string keys (the keys the code looks up, and the
  only keys \<^verbatim>\<open>**overrides\<close> accepts); \<open>PObj\<close> is an opaque object known by its identity
  only (a callback, a template object, an LLM handle).
\<close>

datatype pyval =
    PNone
  | PBool bool
  | PInt int
  | PStr string
  | PList "pyval list"
  | PTuple "pyval list"
  | PDict "(string \<times> pyval) list"
  | PObj nat

datatype error = TypeError | KeyError | ValueError

text \<open>Truth value testing, as \<^verbatim>\<open>if x\<close>, \<^verbatim>\<open>not x\<close> and \<^verbatim>\<open>x or y\<close> use it.\<close>

fun truthy :: "pyval \<Rightarrow> bool" where
  "truthy PNone = False"
| "truthy (PBool b) = b"
| "truthy (PInt i) = (i \<noteq> 0)"
| "truthy (PStr s) = (s \<noteq> [])"
| "truthy (PList xs) = (xs \<noteq> [])"
| "truthy (PTuple xs) = (xs \<noteq> [])"
| "truthy (PDict d) = (d \<noteq> [])"
| "truthy (PObj n) = True"

definition py_or :: "pyval \<Rightarrow> pyval \<Rightarrow> pyval" where
  "py_or x y = (if truthy x then x else y)"

text \<open>\<^verbatim>\<open>k in s\<close> on two strings is the substring test.\<close>

fun is_prefix :: "string \<Rightarrow> string \<Rightarrow> bool" where
  "is_prefix [] s = True"
| "is_prefix (c # cs) [] = False"
| "is_prefix (c # cs) (d # ds) = (c = d \<and> is_prefix cs ds)"

fun is_substring :: "string \<Rightarrow> string \<Rightarrow> bool" where
  "is_substring k [] = (k = [])"
| "is_substring k (c # cs) = (is_prefix k (c # cs) \<or> is_substring k cs)"

text \<open>
  \<^verbatim>\<open>k in v\<close> for a string key \<open>k\<close>: key membership in a dictionary, substring test in a
  string, element membership in a list or tuple, and a \<^verbatim>\<open>TypeError\<close> on a value that is not
  iterable.
\<close>

fun py_in :: "string \<Rightarrow> pyval \<Rightarrow> error + bool" where
  "py_in k (PDict d) = Inr (map_of d k \<noteq> None)"
| "py_in k (PStr s) = Inr (is_substring k s)"
| "py_in k (PList xs) = Inr (PStr k \<in> set xs)"
| "py_in k (PTuple xs) = Inr (PStr k \<in> set xs)"
| "py_in k PNone = Inl TypeError"
| "py_in k (PBool b) = Inl TypeError"
| "py_in k (PInt i) = Inl TypeError"
| "py_in k (PObj n) = Inl TypeError"

text \<open>
  \<^verbatim>\<open>v[k]\<close> for a string key \<open>k\<close>: the value of the key in a dictionary (\<^verbatim>\<open>KeyError\<close> when
  it is missing), a \<^verbatim>\<open>TypeError\<close> on every other value (strings, lists and tuples take
  integer indices only).
\<close>

fun py_getitem :: "pyval \<Rightarrow> string \<Rightarrow> error + pyval" where
  "py_getitem (PDict d) k = (case map_of d k of None \<Rightarrow> Inl KeyError | Some v \<Rightarrow> Inr v)"
| "py_getitem v k = Inl TypeError"

text \<open>
  Iteration over a value, as tuple unpacking uses it: the elements of a tuple or list, the
  one-character strings of a string, the keys of a dictionary; \<^verbatim>\<open>TypeError\<close> otherwise.
  Unpacking into two or three names raises \<^verbatim>\<open>ValueError\<close> on any other number of
  elements.
\<close>

fun py_iter :: "pyval \<Rightarrow> error + pyval list" where
  "py_iter (PTuple xs) = Inr xs"
| "py_iter (PList xs) = Inr xs"
| "py_iter (PStr s) = Inr (map (\<lambda>c. PStr [c]) s)"
| "py_iter (PDict d) = Inr (map (\<lambda>(k, v). PStr k) d)"
| "py_iter v = Inl TypeError"

definition unpack2 :: "pyval \<Rightarrow> error + pyval \<times> pyval" where
  "unpack2 v =
     (case py_iter v of
        Inl e \<Rightarrow> Inl e
      | Inr xs \<Rightarrow> (case xs of [a, b] \<Rightarrow> Inr (a, b) | _ \<Rightarrow> Inl ValueError))"

definition unpack3 :: "pyval \<Rightarrow> error + pyval \<times> pyval \<times> pyval" where
  "unpack3 v =
     (case py_iter v of
        Inl e \<Rightarrow> Inl e
      | Inr xs \<Rightarrow> (case xs of [a, b, c] \<Rightarrow> Inr (a, b, c) | _ \<Rightarrow> Inl ValueError))"

text \<open>\<^verbatim>\<open>f(x, **v)\<close>: the value after \<^verbatim>\<open>**\<close> must be a mapping.\<close>

definition kwargs :: "pyval \<Rightarrow> error + (string \<times> pyval) list" where
  "kwargs v = (case v of PDict d \<Rightarrow> Inr d | _ \<Rightarrow> Inl TypeError)"

section \<open>Backend state\<close>

text \<open>
  The attributes of a \<^verbatim>\<open>Backend\<close> instance that the code under study reads or writes.
  \<open>active_preset_name\<close> is read by the preset resolver and owned by the concrete backend;
  every other attribute of a concrete backend lives in the record's extension.
\<close>

record backend =
  conversation_id :: pyval
  conversation_title :: pyval
  conversation_title_set :: pyval
  stream :: pyval
  message_clipboard :: pyval
  streaming :: pyval
  active_preset_name :: pyval

definition new_conversation :: "'z backend_scheme \<Rightarrow> 'z backend_scheme" where
  "new_conversation self =
     self\<lparr>conversation_id := PNone,
          conversation_title := PNone,
          conversation_title_set := PNone,
          message_clipboard := PNone\<rparr>"

section \<open>Collaborators\<close>

text \<open>
  The methods the pipeline calls and \<^verbatim>\<open>backend.py\<close> does not define are parameters of the
  model: the template manager's \<^verbatim>\<open>get_template_variables_substitutions\<close> and
  \<^verbatim>\<open>build_message_from_template\<close>, \<^verbatim>\<open>util.merge_dicts\<close>, the concrete backend's
  \<^verbatim>\<open>activate_preset\<close>, the abstract \<^verbatim>\<open>set_override_llm\<close>, \<^verbatim>\<open>ask\<close> and \<^verbatim>\<open>ask_stream\<close>,
  and the method \<^verbatim>\<open>_ask\<close> that \<^verbatim>\<open>run_template_compiled\<close> calls (\<open>private_ask\<close> here: a name
  cannot start with an underscore). Each takes its arguments and the backend state and
  returns its value with the new state; following the result convention of the repository,
  a collaborator reports failure through the success flag of the triple it returns.
  \<^verbatim>\<open>merge_dicts\<close> updates its first argument in place and the caller ignores what it
  returns: the parameter gives the content of the first argument after the call, or the
  exception raised. The three ask methods take the input and the keyword arguments.
  \<open>format_value\<close> is the text of a value inside an f-string.

  The logger is left out: no value or attribute depends on what it writes.
\<close>

record 's collaborators =
  get_template_variables_substitutions :: "pyval \<Rightarrow> 's \<Rightarrow> (pyval \<times> pyval \<times> pyval) \<times> 's"
  build_message_from_template :: "pyval \<Rightarrow> pyval \<Rightarrow> 's \<Rightarrow> (pyval \<times> pyval) \<times> 's"
  merge_dicts :: "pyval \<Rightarrow> pyval \<Rightarrow> error + pyval"
  activate_preset :: "pyval \<Rightarrow> 's \<Rightarrow> pyval \<times> 's"
  set_override_llm :: "pyval \<Rightarrow> pyval \<Rightarrow> 's \<Rightarrow> (pyval \<times> pyval \<times> pyval) \<times> 's"
  ask :: "pyval \<Rightarrow> (string \<times> pyval) list \<Rightarrow> 's \<Rightarrow> pyval \<times> 's"
  ask_stream :: "pyval \<Rightarrow> (string \<times> pyval) list \<Rightarrow> 's \<Rightarrow> pyval \<times> 's"
  private_ask :: "pyval \<Rightarrow> (string \<times> pyval) list \<Rightarrow> 's \<Rightarrow> pyval \<times> 's"
  format_value :: "pyval \<Rightarrow> string"

text \<open>Every call that leaves the class is recorded, in order, beside the backend state.\<close>

datatype call =
    GetTemplateVariablesSubstitutions pyval
  | MergeDicts pyval pyval
  | BuildMessageFromTemplate pyval pyval
  | ActivatePreset pyval
  | SetOverrideLlm pyval pyval
  | PrivateAsk pyval "(string \<times> pyval) list"

text \<open>
  A method body is a function from the backend state and the calls made so far to its
  outcome (the exception raised, or the value returned) and the state and calls after it.
\<close>

type_synonym ('s, 'a) prog = "'s \<times> call list \<Rightarrow> (error + 'a) \<times> ('s \<times> call list)"

definition ret :: "'a \<Rightarrow> ('s, 'a) prog" where
  "ret x = (\<lambda>s. (Inr x, s))"

definition lift :: "error + 'a \<Rightarrow> ('s, 'a) prog" where
  "lift r = (\<lambda>s. (r, s))"

definition seq :: "('s, 'a) prog \<Rightarrow> ('a \<Rightarrow> ('s, 'b) prog) \<Rightarrow> ('s, 'b) prog" where
  "seq m f = (\<lambda>s. case m s of (Inl e, s') \<Rightarrow> (Inl e, s') | (Inr x, s') \<Rightarrow> f x s')"

definition invoke :: "call \<Rightarrow> ('s \<Rightarrow> 'a \<times> 's) \<Rightarrow> ('s, 'a) prog" where
  "invoke c f = (\<lambda>(self, calls). case f self of (r, self') \<Rightarrow> (Inr r, (self', calls @ [c])))"

definition invoke_pure :: "call \<Rightarrow> error + 'a \<Rightarrow> ('s, 'a) prog" where
  "invoke_pure c r = (\<lambda>(self, calls). (r, (self, calls @ [c])))"

definition attribute :: "('s \<Rightarrow> 'a) \<Rightarrow> ('s, 'a) prog" where
  "attribute f = (\<lambda>(self, calls). (Inr (f self), (self, calls)))"

section \<open>Preset override resolver\<close>

text \<open>
  \<^verbatim>\<open>extract_preset_configuration_from_overrides\<close>, expression by expression:
  \<^verbatim>\<open>overrides['request_overrides']\<close> is evaluated again wherever the source writes it, and
  \<^verbatim>\<open>and\<close>/\<^verbatim>\<open>or\<close> evaluate their right operand only when needed. The result is the
  triple of success flag, payload (the tuple of preset name, preset overrides and the
  overrides given) and user message.
\<close>

definition extract_preset_configuration_from_overrides ::
  "('z backend_scheme) collaborators \<Rightarrow> pyval \<Rightarrow> ('z backend_scheme, pyval \<times> pyval \<times> pyval) prog" where
  "extract_preset_configuration_from_overrides env overrides =
     seq (seq (lift (py_in ''request_overrides'' overrides)) (\<lambda>has_request_overrides.
            if \<not> has_request_overrides then ret False
            else seq (lift (py_getitem overrides ''request_overrides'')) (\<lambda>ro.
                 seq (lift (py_in ''preset'' ro)) (\<lambda>has_preset.
                   if has_preset then ret True
                   else seq (lift (py_getitem overrides ''request_overrides'')) (\<lambda>ro.
                        lift (py_in ''preset_overrides'' ro))))))
     (\<lambda>has_preset_configuration.
       if has_preset_configuration then
         seq (seq (lift (py_getitem overrides ''request_overrides'')) (\<lambda>ro.
                lift (py_in ''preset'' ro)))
         (\<lambda>has_preset.
         seq (if has_preset then
                seq (seq (lift (py_getitem overrides ''request_overrides'')) (\<lambda>ro.
                       lift (py_getitem ro ''preset''))) (\<lambda>preset_name.
                seq (seq (lift (py_getitem overrides ''request_overrides'')) (\<lambda>ro.
                     seq (lift (py_in ''activate_preset'' ro)) (\<lambda>has_activate.
                       if \<not> has_activate then ret False
                       else seq (lift (py_getitem overrides ''request_overrides'')) (\<lambda>ro.
                            seq (lift (py_getitem ro ''activate_preset'')) (\<lambda>flag.
                              ret (truthy flag)))))) (\<lambda>activate.
                seq (if activate then
                       seq (invoke (ActivatePreset preset_name) (activate_preset env preset_name))
                         (\<lambda>ignored. ret ())
                     else ret ()) (\<lambda>u.
                ret preset_name)))
              else attribute active_preset_name)
         (\<lambda>preset_name.
           if \<not> truthy preset_name then
             ret (PBool False, PTuple [preset_name, PNone, overrides],
                  PStr ''No active preset to override'')
           else
             seq (seq (lift (py_getitem overrides ''request_overrides'')) (\<lambda>ro.
                  seq (lift (py_in ''preset_overrides'' ro)) (\<lambda>has_preset_overrides.
                    if has_preset_overrides then
                      seq (lift (py_getitem overrides ''request_overrides'')) (\<lambda>ro.
                        lift (py_getitem ro ''preset_overrides''))
                    else ret PNone)))
             (\<lambda>preset_overrides.
               ret (PBool True, PTuple [preset_name, preset_overrides, overrides],
                    PStr (''Extracted preset configuration from request overrides: ''
                          @ format_value env overrides)))))
       else
         ret (PBool True, PTuple [PNone, PNone, overrides],
              PStr (''Extracted preset configuration from request overrides: ''
                    @ format_value env overrides)))"

text \<open>The preset name in the payload of a resolver outcome, when there is one.\<close>

definition resolved_preset_name :: "error + pyval \<times> pyval \<times> pyval \<Rightarrow> pyval option" where
  "resolved_preset_name outcome =
     (case outcome of
        Inr (success, PTuple (name # rest), user_message) \<Rightarrow> Some name
      | _ \<Rightarrow> None)"

section \<open>Template execution pipeline\<close>

text \<open>
  \<^verbatim>\<open>run_template_setup\<close>. On a resolver failure the payload returned is the tuple of the
  compiled message, the local \<^verbatim>\<open>preset_name\<close> (still \<^verbatim>\<open>None\<close>) and the template overrides;
  on a failure of \<^verbatim>\<open>set_override_llm\<close> its triple is returned as it is. \<open>Some r\<close> below is
  the early \<^verbatim>\<open>return\<close> out of the \<^verbatim>\<open>if preset_name\<close> block.
\<close>

definition run_template_setup ::
  "('z backend_scheme) collaborators \<Rightarrow> pyval \<Rightarrow> pyval
     \<Rightarrow> ('z backend_scheme, pyval \<times> pyval \<times> pyval) prog" where
  "run_template_setup env template_name substitutions0 =
     (let substitutions = py_or substitutions0 (PDict []) in
      seq (invoke (BuildMessageFromTemplate template_name substitutions)
             (build_message_from_template env template_name substitutions))
      (\<lambda>(message, overrides).
      seq (extract_preset_configuration_from_overrides env overrides)
      (\<lambda>(success, response, user_message).
        if \<not> truthy success then
          ret (success, PTuple [message, PNone, overrides], user_message)
        else
          seq (lift (unpack3 response))
          (\<lambda>(preset_name, preset_overrides, overrides).
            seq (if truthy preset_name then
                   seq (invoke (SetOverrideLlm preset_name preset_overrides)
                          (set_override_llm env preset_name preset_overrides))
                   (\<lambda>(success, llm, user_message).
                     if truthy success then ret None
                     else ret (Some (success, llm, user_message)))
                 else ret None)
            (\<lambda>returned.
              case returned of
                Some r \<Rightarrow> ret r
              | None \<Rightarrow>
                  ret (PBool True, PTuple [message, overrides],
                       PStr (''Set up of template run complete: ''
                             @ format_value env template_name)))))))"

text \<open>\<^verbatim>\<open>run_template_compiled\<close>: whatever \<^verbatim>\<open>_ask\<close> returns is returned.\<close>

definition run_template_compiled ::
  "('z backend_scheme) collaborators \<Rightarrow> pyval \<Rightarrow> pyval \<Rightarrow> ('z backend_scheme, pyval) prog" where
  "run_template_compiled env message overrides0 =
     (let overrides = py_or overrides0 (PDict []) in
      seq (lift (kwargs overrides))
      (\<lambda>keywords. invoke (PrivateAsk message keywords) (private_ask env message keywords)))"

text \<open>
  \<^verbatim>\<open>run_template\<close>. An early \<^verbatim>\<open>return success, response, user_message\<close> returns a tuple;
  the last line returns the value of \<^verbatim>\<open>run_template_compiled\<close>.
\<close>

definition run_template ::
  "('z backend_scheme) collaborators \<Rightarrow> pyval \<Rightarrow> pyval \<Rightarrow> pyval
     \<Rightarrow> ('z backend_scheme, pyval) prog" where
  "run_template env template_name template_vars0 overrides0 =
     (let template_vars = py_or template_vars0 (PDict []);
          overrides = py_or overrides0 (PDict []) in
      seq (invoke (GetTemplateVariablesSubstitutions template_name)
             (get_template_variables_substitutions env template_name))
      (\<lambda>(success, response, user_message).
        if \<not> truthy success then ret (PTuple [success, response, user_message])
        else
          seq (lift (unpack3 response))
          (\<lambda>(template, variables, substitutions0).
          seq (invoke_pure (MergeDicts substitutions0 template_vars)
                 (merge_dicts env substitutions0 template_vars))
          (\<lambda>substitutions.
          seq (run_template_setup env template_name substitutions)
          (\<lambda>(success, response, user_message).
            if \<not> truthy success then ret (PTuple [success, response, user_message])
            else
              seq (lift (unpack2 response))
              (\<lambda>(message, template_overrides0).
              seq (invoke_pure (MergeDicts template_overrides0 overrides)
                     (merge_dicts env template_overrides0 overrides))
              (\<lambda>template_overrides.
                run_template_compiled env message template_overrides)))))))"

section \<open>Merging dictionaries\<close>

text \<open>
  Modelled from the spec: the assignment \<^verbatim>\<open>d[k] = v\<close> that \<^verbatim>\<open>util.merge_dicts\<close> performs on
  its first argument (the module \<^verbatim>\<open>lwe/core/util.py\<close> is not among the sources). On a
  dictionary in insertion order a key already present keeps its place and takes the new
  value, a new key goes to the end.
\<close>

fun dict_set :: "string \<Rightarrow> pyval \<Rightarrow> (string \<times> pyval) list \<Rightarrow> (string \<times> pyval) list" where
  "dict_set k v [] = [(k, v)]"
| "dict_set k v ((k', v') # d) = (if k' = k then (k, v) # d else (k', v') # dict_set k v d)"

text \<open>
  Modelled from the spec: the loop of \<^verbatim>\<open>util.merge_dicts\<close> (not among the sources). The
  spec says of both merges of the pipeline that the caller's keys override the template's
  keys of the same name and that unrelated keys of both survive: every item of the second
  mapping is assigned into the first.
\<close>

fun merge_items ::
  "(string \<times> pyval) list \<Rightarrow> (string \<times> pyval) list \<Rightarrow> (string \<times> pyval) list" where
  "merge_items d1 [] = d1"
| "merge_items d1 ((k, v) # d2) = merge_items (dict_set k v d1) d2"

text \<open>
  Modelled from the spec: \<^verbatim>\<open>util.merge_dicts\<close> (not among the sources) on Python values.
  The spec speaks of mappings only; merging values that are not both mappings raises
  \<^verbatim>\<open>TypeError\<close> here.
\<close>

definition merge_dicts_spec :: "pyval \<Rightarrow> pyval \<Rightarrow> error + pyval" where
  "merge_dicts_spec dict1 dict2 =
     (case (dict1, dict2) of
        (PDict d1, PDict d2) \<Rightarrow> Inr (PDict (merge_items d1 d2))
      | _ \<Rightarrow> Inl TypeError)"

section \<open>A concrete backend\<close>

text \<open>
  A small concrete backend on which the theorems below are exercised. Its \<^verbatim>\<open>_ask\<close> answers
  in the mode the \<open>stream\<close> attribute selects; \<^verbatim>\<open>ask\<close> and \<^verbatim>\<open>ask_stream\<close> set that
  attribute and delegate to \<^verbatim>\<open>_ask\<close>; \<^verbatim>\<open>activate_preset\<close> makes the preset the standing
  one. The template store holds one template, which compiles to \<open>''Hello''\<close> with the
  overrides given; the success flags of the template fetch and of \<^verbatim>\<open>set_override_llm\<close>
  are given as well.
\<close>

definition example_backend :: "pyval \<Rightarrow> pyval \<Rightarrow> backend" where
  "example_backend active mode =
     \<lparr>conversation_id = PStr ''c-1'',
      conversation_title = PStr ''chat'',
      conversation_title_set = PBool True,
      stream = mode,
      message_clipboard = PStr ''last answer'',
      streaming = PBool False,
      active_preset_name = active\<rparr>"

definition example_private_ask ::
  "pyval \<Rightarrow> (string \<times> pyval) list \<Rightarrow> backend \<Rightarrow> pyval \<times> backend" where
  "example_private_ask input keywords self =
     (PTuple [PBool True,
              PStr (if truthy (stream self) then ''streamed'' else ''complete''),
              PStr ''Response received''], self)"

definition example_env :: "pyval \<Rightarrow> pyval \<Rightarrow> pyval \<Rightarrow> backend collaborators" where
  "example_env fetch_ok template_overrides llm_ok =
     \<lparr>get_template_variables_substitutions =
        (\<lambda>name self.
           ((fetch_ok,
             PTuple [PObj 0, PList [PStr ''name''], PDict [(''name'', PStr ''world'')]],
             PStr ''Loaded template''), self)),
      build_message_from_template =
        (\<lambda>name substitutions self. ((PStr ''Hello'', template_overrides), self)),
      merge_dicts = merge_dicts_spec,
      activate_preset =
        (\<lambda>name self.
           (PTuple [PBool True, name, PStr ''Switched to preset''],
            self\<lparr>active_preset_name := name\<rparr>)),
      set_override_llm =
        (\<lambda>name preset_overrides self. ((llm_ok, PObj 1, PStr ''Override LLM''), self)),
      ask = (\<lambda>input keywords self. example_private_ask input keywords (self\<lparr>stream := PBool False\<rparr>)),
      ask_stream =
        (\<lambda>input keywords self. example_private_ask input keywords (self\<lparr>stream := PBool True\<rparr>)),
      private_ask = example_private_ask,
      format_value = (\<lambda>v. ''<value>'')\<rparr>"

section \<open>Auxiliary facts\<close>

lemmas prog_defs = seq_def lift_def ret_def invoke_def invoke_pure_def attribute_def

lemma extract_activates:
  assumes "map_of d ''request_overrides'' = Some (PDict ro)"
    and "map_of ro ''preset'' = Some p"
    and "map_of ro ''activate_preset'' = Some flag"
    and "truthy flag"
  shows "snd (extract_preset_configuration_from_overrides env (PDict d) (self, calls))
         = (snd (activate_preset env p self), calls @ [ActivatePreset p])"
  using assms
  by (simp add: extract_preset_configuration_from_overrides_def prog_defs
        split: prod.splits option.splits)

lemma extract_frame_mapping:
  assumes "map_of d ''request_overrides'' = Some (PDict ro)"
    and "\<not> (\<exists>p flag. map_of ro ''preset'' = Some p
                \<and> map_of ro ''activate_preset'' = Some flag \<and> truthy flag)"
  shows "snd (extract_preset_configuration_from_overrides env (PDict d) (self, calls))
         = (self, calls)"
  using assms
  by (auto simp add: extract_preset_configuration_from_overrides_def prog_defs
        split: prod.splits option.splits)

lemma extract_frame:
  assumes "\<not> (\<exists>d ro p flag. overrides = PDict d
                \<and> map_of d ''request_overrides'' = Some (PDict ro)
                \<and> map_of ro ''preset'' = Some p
                \<and> map_of ro ''activate_preset'' = Some flag \<and> truthy flag)"
  shows "snd (extract_preset_configuration_from_overrides env overrides (self, calls))
         = (self, calls)"
proof (cases overrides)
  case (PDict d)
  show ?thesis
  proof (cases "map_of d ''request_overrides''")
    case None
    then show ?thesis
      using PDict
      by (simp add: extract_preset_configuration_from_overrides_def prog_defs)
  next
    case (Some v)
    show ?thesis
    proof (cases "\<exists>ro. v = PDict ro")
      case True
      then obtain ro where "v = PDict ro" by blast
      with Some PDict assms show ?thesis
        by (simp add: extract_frame_mapping)
    next
      case False
      then show ?thesis
        using Some PDict
        by (cases v)
           (auto simp add: extract_preset_configuration_from_overrides_def prog_defs
              split: prod.splits option.splits)
    qed
  qed
qed (auto simp add: extract_preset_configuration_from_overrides_def prog_defs
       split: prod.splits option.splits)

lemma extract_calls:
  "snd (snd (extract_preset_configuration_from_overrides env overrides (self, calls))) = calls
   \<or> (\<exists>p. snd (snd (extract_preset_configuration_from_overrides env overrides (self, calls)))
            = calls @ [ActivatePreset p])"
proof (cases "\<exists>d ro p flag. overrides = PDict d
                \<and> map_of d ''request_overrides'' = Some (PDict ro)
                \<and> map_of ro ''preset'' = Some p
                \<and> map_of ro ''activate_preset'' = Some flag \<and> truthy flag")
  case True
  then obtain d ro p flag where "overrides = PDict d"
    and "map_of d ''request_overrides'' = Some (PDict ro)"
    and "map_of ro ''preset'' = Some p"
    and "map_of ro ''activate_preset'' = Some flag" and "truthy flag"
    by blast
  then have "snd (extract_preset_configuration_from_overrides env overrides (self, calls))
             = (snd (activate_preset env p self), calls @ [ActivatePreset p])"
    by (simp add: extract_activates)
  then show ?thesis by simp
next
  case False
  then have "snd (extract_preset_configuration_from_overrides env overrides (self, calls))
             = (self, calls)"
    by (rule extract_frame)
  then show ?thesis by simp
qed

lemma map_of_dict_set: "map_of (dict_set k v d) k' = (if k' = k then Some v else map_of d k')"
  by (induction d) auto

lemma keys_dict_set: "fst ` set (dict_set k v d) = insert k (fst ` set d)"
proof (induction d)
  case Nil
  then show ?case by simp
next
  case (Cons a d)
  obtain k' v' where a: "a = (k', v')" by (cases a)
  show ?case
  proof (cases "k' = k")
    case True
    then show ?thesis using a by simp
  next
    case False
    then have "fst ` set (dict_set k v (a # d)) = insert k' (fst ` set (dict_set k v d))"
      using a by simp
    also have "\<dots> = insert k' (insert k (fst ` set d))" by (simp only: Cons.IH)
    finally show ?thesis using a by auto
  qed
qed

lemma distinct_dict_set: "distinct (map fst d) \<Longrightarrow> distinct (map fst (dict_set k v d))"
proof (induction d)
  case Nil
  then show ?case by simp
next
  case (Cons a d)
  have "fst ` set (dict_set k v d) = insert k (fst ` set d)" by (rule keys_dict_set)
  with Cons show ?case by (cases a) auto
qed

lemma map_of_merge_items:
  "distinct (map fst d2) \<Longrightarrow>
   map_of (merge_items d1 d2) k = (case map_of d2 k of Some v \<Rightarrow> Some v | None \<Rightarrow> map_of d1 k)"
proof (induction d2 arbitrary: d1)
  case Nil
  then show ?case by simp
next
  case (Cons kv d2)
  obtain k' v' where kv: "kv = (k', v')" by (cases kv)
  from Cons.prems kv have d: "distinct (map fst d2)" and nk: "k' \<notin> fst ` set d2" by auto
  from nk have "map_of d2 k' = None" by (simp add: map_of_eq_None_iff)
  then show ?case using Cons.IH[OF d, of "dict_set k' v' d1"] kv
    by (auto simp: map_of_dict_set split: option.splits)
qed

lemma keys_merge_items:
  "fst ` set (merge_items d1 d2) = fst ` set d1 \<union> fst ` set d2"
proof (induction d2 arbitrary: d1)
  case Nil
  then show ?case by simp
next
  case (Cons kv d2)
  obtain k v where kv: "kv = (k, v)" by (cases kv)
  have "fst ` set (merge_items (dict_set k v d1) d2)
        = insert k (fst ` set d1) \<union> fst ` set d2"
    using Cons.IH[of "dict_set k v d1"] by (simp only: keys_dict_set)
  then show ?case using kv by simp
qed

lemma distinct_merge_items: "distinct (map fst d1) \<Longrightarrow> distinct (map fst (merge_items d1 d2))"
  by (induction d2 arbitrary: d1) (auto simp: distinct_dict_set)

section \<open>Conversation lifecycle\<close>

text \<open>
  C7. For every backend state, \<open>new_conversation\<close> (a total function: it has no error
  result) leaves the conversation identifier, the title, the title-set flag and the message
  clipboard cleared, and changes nothing else: the streaming flag, the stream mode, the
  active preset name and every attribute of the concrete backend keep their values.
\<close>

theorem new_conversation_clears:
  "conversation_id (new_conversation self) = PNone
   \<and> conversation_title (new_conversation self) = PNone
   \<and> conversation_title_set (new_conversation self) = PNone
   \<and> message_clipboard (new_conversation self) = PNone
   \<and> streaming (new_conversation self) = streaming self
   \<and> stream (new_conversation self) = stream self
   \<and> active_preset_name (new_conversation self) = active_preset_name self
   \<and> backend.more (new_conversation self) = backend.more self"
  by (simp add: new_conversation_def)

section \<open>Preset override resolver: results\<close>

text \<open>
  C1. For every override payload whose \<^verbatim>\<open>request_overrides\<close> mapping has the key
  \<^verbatim>\<open>preset_overrides\<close> and no key \<^verbatim>\<open>preset\<close>, on a backend whose active preset name is
  unset (\<^verbatim>\<open>None\<close>, the empty string or any other false value), the resolver returns a
  failed result whose message is exactly "No active preset to override"; the backend state
  is unchanged and no collaborator is called.
\<close>

theorem no_active_preset_to_override:
  assumes "map_of d ''request_overrides'' = Some (PDict ro)"
    and "map_of ro ''preset_overrides'' = Some po"
    and "map_of ro ''preset'' = None"
    and "\<not> truthy (active_preset_name self)"
  shows "extract_preset_configuration_from_overrides env (PDict d) (self, calls)
         = (Inr (PBool False, PTuple [active_preset_name self, PNone, PDict d],
                 PStr ''No active preset to override''),
            (self, calls))"
  using assms
  by (simp add: extract_preset_configuration_from_overrides_def prog_defs)

theorem no_active_preset_to_override_witness:
  "extract_preset_configuration_from_overrides (example_env (PBool True) (PDict []) (PBool True))
     (PDict [(''request_overrides'',
              PDict [(''preset_overrides'', PDict [(''temperature'', PInt 0)])])])
     (example_backend PNone (PBool False), [])
   = (Inr (PBool False,
           PTuple [PNone, PNone,
                   PDict [(''request_overrides'',
                           PDict [(''preset_overrides'', PDict [(''temperature'', PInt 0)])])]],
           PStr ''No active preset to override''),
      (example_backend PNone (PBool False), []))"
  using no_active_preset_to_override
    [where d = "[(''request_overrides'',
                  PDict [(''preset_overrides'', PDict [(''temperature'', PInt 0)])])]"
       and ro = "[(''preset_overrides'', PDict [(''temperature'', PInt 0)])]"
       and po = "PDict [(''temperature'', PInt 0)]"
       and self = "example_backend PNone (PBool False)"
       and env = "example_env (PBool True) (PDict []) (PBool True)"
       and calls = "[]"]
  by (simp add: example_backend_def)

text \<open>
  C3. For every override payload whose \<^verbatim>\<open>request_overrides\<close> mapping has the key
  \<^verbatim>\<open>preset\<close>, the preset name of the resolver's result is the value of that key, whatever
  the backend's active preset name is: with a true value the result is a success carrying
  that name (and the \<^verbatim>\<open>preset_overrides\<close> of the payload, if any), with a false value it is
  the failure of C9 carrying that value.
\<close>

theorem explicit_preset_wins:
  assumes "map_of d ''request_overrides'' = Some (PDict ro)"
    and "map_of ro ''preset'' = Some p"
  shows "resolved_preset_name
           (fst (extract_preset_configuration_from_overrides env (PDict d) (self, calls)))
         = Some p
       \<and> fst (extract_preset_configuration_from_overrides env (PDict d) (self, calls))
         = Inr (if truthy p
                then (PBool True,
                      PTuple [p,
                              (case map_of ro ''preset_overrides'' of
                                 None \<Rightarrow> PNone | Some po \<Rightarrow> po),
                              PDict d],
                      PStr (''Extracted preset configuration from request overrides: ''
                            @ format_value env (PDict d)))
                else (PBool False, PTuple [p, PNone, PDict d],
                      PStr ''No active preset to override''))"
  using assms
  by (simp add: extract_preset_configuration_from_overrides_def prog_defs
        resolved_preset_name_def split: prod.splits option.splits)

theorem explicit_preset_wins_witness:
  "active_preset_name (example_backend (PStr ''standing'') (PBool False)) = PStr ''standing''
   \<and> resolved_preset_name
        (fst (extract_preset_configuration_from_overrides
                (example_env (PBool True) (PDict []) (PBool True))
                (PDict [(''request_overrides'', PDict [(''preset'', PStr ''explicit'')])])
                (example_backend (PStr ''standing'') (PBool False), [])))
      = Some (PStr ''explicit'')"
  using explicit_preset_wins
    [where d = "[(''request_overrides'', PDict [(''preset'', PStr ''explicit'')])]"
       and ro = "[(''preset'', PStr ''explicit'')]"
       and p = "PStr ''explicit''"
       and self = "example_backend (PStr ''standing'') (PBool False)"
       and env = "example_env (PBool True) (PDict []) (PBool True)"
       and calls = "[]", THEN conjunct1]
  by (simp add: example_backend_def)

text \<open>
  C5. For every override payload that has no key \<^verbatim>\<open>request_overrides\<close>, or whose
  \<^verbatim>\<open>request_overrides\<close> mapping has neither the key \<^verbatim>\<open>preset\<close> nor the key
  \<^verbatim>\<open>preset_overrides\<close>, the resolver returns success with preset name \<^verbatim>\<open>None\<close> and preset
  overrides \<^verbatim>\<open>None\<close>, and leaves the backend as it was.
\<close>

theorem no_preset_work:
  assumes "map_of d ''request_overrides'' = None
           \<or> (\<exists>ro. map_of d ''request_overrides'' = Some (PDict ro)
                  \<and> map_of ro ''preset'' = None
                  \<and> map_of ro ''preset_overrides'' = None)"
  shows "extract_preset_configuration_from_overrides env (PDict d) (self, calls)
         = (Inr (PBool True, PTuple [PNone, PNone, PDict d],
                 PStr (''Extracted preset configuration from request overrides: ''
                       @ format_value env (PDict d))),
            (self, calls))"
  using assms
  by (auto simp add: extract_preset_configuration_from_overrides_def prog_defs)

theorem no_preset_work_witness:
  "extract_preset_configuration_from_overrides (example_env (PBool True) (PDict []) (PBool True))
     (PDict [(''title'', PStr ''greeting'')])
     (example_backend (PStr ''standing'') (PBool False), [])
   = (Inr (PBool True, PTuple [PNone, PNone, PDict [(''title'', PStr ''greeting'')]],
           PStr ''Extracted preset configuration from request overrides: <value>''),
      (example_backend (PStr ''standing'') (PBool False), []))
   \<and> extract_preset_configuration_from_overrides
       (example_env (PBool True) (PDict []) (PBool True))
       (PDict [(''request_overrides'', PDict [(''stream_callback'', PObj 7)])])
       (example_backend (PStr ''standing'') (PBool False), [])
     = (Inr (PBool True,
             PTuple [PNone, PNone,
                     PDict [(''request_overrides'', PDict [(''stream_callback'', PObj 7)])]],
             PStr ''Extracted preset configuration from request overrides: <value>''),
        (example_backend (PStr ''standing'') (PBool False), []))"
  using no_preset_work
    [where d = "[(''title'', PStr ''greeting'')]"
       and self = "example_backend (PStr ''standing'') (PBool False)"
       and env = "example_env (PBool True) (PDict []) (PBool True)"
       and calls = "[]"]
    no_preset_work
    [where d = "[(''request_overrides'', PDict [(''stream_callback'', PObj 7)])]"
       and self = "example_backend (PStr ''standing'') (PBool False)"
       and env = "example_env (PBool True) (PDict []) (PBool True)"
       and calls = "[]"]
  by (simp add: example_env_def)

text \<open>
  C9. For every override payload whose \<^verbatim>\<open>request_overrides\<close> mapping gives the key
  \<^verbatim>\<open>preset\<close> a false value (the empty string, \<^verbatim>\<open>None\<close>), the resolver fails with the message
  "No active preset to override", whether or not a key \<^verbatim>\<open>preset_overrides\<close> is present and
  whatever the backend's active preset name is.
\<close>

theorem falsy_explicit_preset_fails:
  assumes "map_of d ''request_overrides'' = Some (PDict ro)"
    and "map_of ro ''preset'' = Some p"
    and "\<not> truthy p"
  shows "fst (extract_preset_configuration_from_overrides env (PDict d) (self, calls))
         = Inr (PBool False, PTuple [p, PNone, PDict d],
                PStr ''No active preset to override'')"
  using assms
  by (simp add: extract_preset_configuration_from_overrides_def prog_defs
        split: prod.splits option.splits)

theorem falsy_explicit_preset_fails_witness:
  "map_of [(''preset'', PStr '''')] ''preset_overrides'' = None
   \<and> active_preset_name (example_backend PNone (PBool False)) = PNone
   \<and> fst (extract_preset_configuration_from_overrides
            (example_env (PBool True) (PDict []) (PBool True))
            (PDict [(''request_overrides'', PDict [(''preset'', PStr '''')])])
            (example_backend PNone (PBool False), []))
     = Inr (PBool False,
            PTuple [PStr '''', PNone,
                    PDict [(''request_overrides'', PDict [(''preset'', PStr '''')])]],
            PStr ''No active preset to override'')"
  using falsy_explicit_preset_fails
    [where d = "[(''request_overrides'', PDict [(''preset'', PStr '''')])]"
       and ro = "[(''preset'', PStr '''')]"
       and p = "PStr ''''"
       and self = "example_backend PNone (PBool False)"
       and env = "example_env (PBool True) (PDict []) (PBool True)"
       and calls = "[]"]
  by (simp add: example_backend_def)

section \<open>Preset override resolver: effects\<close>

text \<open>
  C6. When the payload's \<^verbatim>\<open>request_overrides\<close> mapping has the key \<^verbatim>\<open>preset\<close> and a true
  \<^verbatim>\<open>activate_preset\<close> flag, the resolver calls \<^verbatim>\<open>activate_preset\<close> once, with the value of
  \<^verbatim>\<open>preset\<close>, and the backend is left as that call leaves it. For every other payload,
  of whatever shape, the resolver calls no collaborator and leaves the backend as it was.
\<close>

theorem activation_only_for_flagged_explicit_preset:
  "(overrides = PDict d \<and> map_of d ''request_overrides'' = Some (PDict ro)
      \<and> map_of ro ''preset'' = Some p
      \<and> map_of ro ''activate_preset'' = Some flag \<and> truthy flag
     \<longrightarrow> snd (extract_preset_configuration_from_overrides env overrides (self, calls))
         = (snd (activate_preset env p self), calls @ [ActivatePreset p]))
   \<and> (\<not> (\<exists>d' ro' p' flag'. overrides = PDict d'
             \<and> map_of d' ''request_overrides'' = Some (PDict ro')
             \<and> map_of ro' ''preset'' = Some p'
             \<and> map_of ro' ''activate_preset'' = Some flag' \<and> truthy flag')
     \<longrightarrow> snd (extract_preset_configuration_from_overrides env overrides (self, calls))
         = (self, calls))"
proof (intro conjI impI)
  assume "overrides = PDict d \<and> map_of d ''request_overrides'' = Some (PDict ro)
      \<and> map_of ro ''preset'' = Some p
      \<and> map_of ro ''activate_preset'' = Some flag \<and> truthy flag"
  then show "snd (extract_preset_configuration_from_overrides env overrides (self, calls))
         = (snd (activate_preset env p self), calls @ [ActivatePreset p])"
    by (simp add: extract_activates)
next
  assume "\<not> (\<exists>d' ro' p' flag'. overrides = PDict d'
             \<and> map_of d' ''request_overrides'' = Some (PDict ro')
             \<and> map_of ro' ''preset'' = Some p'
             \<and> map_of ro' ''activate_preset'' = Some flag' \<and> truthy flag')"
  then show "snd (extract_preset_configuration_from_overrides env overrides (self, calls))
         = (self, calls)"
    by (rule extract_frame)
qed

theorem activation_only_for_flagged_explicit_preset_witness:
  "snd (extract_preset_configuration_from_overrides
          (example_env (PBool True) (PDict []) (PBool True))
          (PDict [(''request_overrides'',
                   PDict [(''preset'', PStr ''explicit''), (''activate_preset'', PBool True)])])
          (example_backend (PStr ''standing'') (PBool False), []))
   = (example_backend (PStr ''explicit'') (PBool False), [ActivatePreset (PStr ''explicit'')])
   \<and> snd (extract_preset_configuration_from_overrides
            (example_env (PBool True) (PDict []) (PBool True))
            (PDict [(''request_overrides'',
                     PDict [(''preset'', PStr ''explicit''), (''activate_preset'', PBool False)])])
            (example_backend (PStr ''standing'') (PBool False), []))
     = (example_backend (PStr ''standing'') (PBool False), [])"
  using activation_only_for_flagged_explicit_preset
    [where overrides = "PDict [(''request_overrides'',
                   PDict [(''preset'', PStr ''explicit''), (''activate_preset'', PBool True)])]"
       and d = "[(''request_overrides'',
                   PDict [(''preset'', PStr ''explicit''), (''activate_preset'', PBool True)])]"
       and ro = "[(''preset'', PStr ''explicit''), (''activate_preset'', PBool True)]"
       and p = "PStr ''explicit''" and flag = "PBool True"
       and self = "example_backend (PStr ''standing'') (PBool False)"
       and env = "example_env (PBool True) (PDict []) (PBool True)"
       and calls = "[]", THEN conjunct1]
    activation_only_for_flagged_explicit_preset
    [where overrides = "PDict [(''request_overrides'',
                   PDict [(''preset'', PStr ''explicit''), (''activate_preset'', PBool False)])]"
       and self = "example_backend (PStr ''standing'') (PBool False)"
       and env = "example_env (PBool True) (PDict []) (PBool True)"
       and calls = "[]", THEN conjunct2]
  by (simp add: example_backend_def example_env_def)

text \<open>
  C10, as amended. For every override payload whose \<^verbatim>\<open>request_overrides\<close> mapping has no
  key \<^verbatim>\<open>preset\<close> (with or without a true \<^verbatim>\<open>activate_preset\<close> flag), the resolver calls no
  collaborator and leaves the backend, its active preset name included, as it was. It
  falls back to the backend's active preset name only when the key \<^verbatim>\<open>preset_overrides\<close> is
  present (succeeding when that name is set, failing otherwise); without that key it
  succeeds with preset name \<^verbatim>\<open>None\<close>.
\<close>

theorem no_activation_without_explicit_preset:
  assumes "map_of d ''request_overrides'' = Some (PDict ro)"
    and "map_of ro ''preset'' = None"
  shows "extract_preset_configuration_from_overrides env (PDict d) (self, calls)
         = (Inr (case map_of ro ''preset_overrides'' of
                   None \<Rightarrow>
                     (PBool True, PTuple [PNone, PNone, PDict d],
                      PStr (''Extracted preset configuration from request overrides: ''
                            @ format_value env (PDict d)))
                 | Some po \<Rightarrow>
                     if truthy (active_preset_name self)
                     then (PBool True, PTuple [active_preset_name self, po, PDict d],
                           PStr (''Extracted preset configuration from request overrides: ''
                                 @ format_value env (PDict d)))
                     else (PBool False, PTuple [active_preset_name self, PNone, PDict d],
                           PStr ''No active preset to override'')),
            (self, calls))"
  using assms
  by (simp add: extract_preset_configuration_from_overrides_def prog_defs
        split: prod.splits option.splits)

theorem no_activation_without_explicit_preset_witness:
  "extract_preset_configuration_from_overrides
     (example_env (PBool True) (PDict []) (PBool True))
     (PDict [(''request_overrides'',
              PDict [(''activate_preset'', PBool True),
                     (''preset_overrides'', PDict [(''temperature'', PInt 0)])])])
     (example_backend (PStr ''standing'') (PBool False), [])
   = (Inr (PBool True,
           PTuple [PStr ''standing'', PDict [(''temperature'', PInt 0)],
                   PDict [(''request_overrides'',
                           PDict [(''activate_preset'', PBool True),
                                  (''preset_overrides'', PDict [(''temperature'', PInt 0)])])]],
           PStr ''Extracted preset configuration from request overrides: <value>''),
      (example_backend (PStr ''standing'') (PBool False), []))"
  using no_activation_without_explicit_preset
    [where d = "[(''request_overrides'',
              PDict [(''activate_preset'', PBool True),
                     (''preset_overrides'', PDict [(''temperature'', PInt 0)])])]"
       and ro = "[(''activate_preset'', PBool True),
                     (''preset_overrides'', PDict [(''temperature'', PInt 0)])]"
       and self = "example_backend (PStr ''standing'') (PBool False)"
       and env = "example_env (PBool True) (PDict []) (PBool True)"
       and calls = "[]"]
  by (simp add: example_backend_def example_env_def)

text \<open>
  The counterexample to C10 as stated: with a true \<^verbatim>\<open>activate_preset\<close> flag and neither
  \<^verbatim>\<open>preset\<close> nor \<^verbatim>\<open>preset_overrides\<close>, on a backend whose active preset is \<open>''standing''\<close>,
  the preset name resolved is \<^verbatim>\<open>None\<close>, not the active preset name.
\<close>

theorem activate_flag_alone_counterexample:
  "resolved_preset_name
     (fst (extract_preset_configuration_from_overrides
             (example_env (PBool True) (PDict []) (PBool True))
             (PDict [(''request_overrides'', PDict [(''activate_preset'', PBool True)])])
             (example_backend (PStr ''standing'') (PBool False), [])))
   = Some PNone
   \<and> active_preset_name (example_backend (PStr ''standing'') (PBool False)) = PStr ''standing''
   \<and> resolved_preset_name
     (fst (extract_preset_configuration_from_overrides
             (example_env (PBool True) (PDict []) (PBool True))
             (PDict [(''request_overrides'', PDict [(''activate_preset'', PBool True)])])
             (example_backend (PStr ''standing'') (PBool False), [])))
   \<noteq> Some (active_preset_name (example_backend (PStr ''standing'') (PBool False)))"
  by (simp add: extract_preset_configuration_from_overrides_def prog_defs
        resolved_preset_name_def example_backend_def)

section \<open>Template execution pipeline: failure and dispatch\<close>

text \<open>
  C2, as amended. A run of \<open>run_template\<close> that fails in step 1 or step 3 stops there: the
  state and the record of calls it returns are those at the return of the failing call, so
  neither the merge of the caller's overrides nor the dispatch to \<^verbatim>\<open>_ask\<close> takes place.
  \<^item> When the template fetch fails, its triple is returned as it is, after that one call.
  \<^item> When the preset resolver fails, the success flag and the message returned are the
    resolver's, and the payload is the tuple of the compiled message, \<^verbatim>\<open>None\<close> and the
    template overrides (not the resolver's payload).
  \<^item> When \<^verbatim>\<open>set_override_llm\<close> fails, its triple is returned as it is.
  In the last two cases the calls made are the fetch, the merge of the template variables,
  the compilation, an activation if the resolver made one, and \<^verbatim>\<open>set_override_llm\<close> in the
  last case.
\<close>

theorem run_template_short_circuit:
  assumes fetch:
    "get_template_variables_substitutions env name self = ((ok_fetch, resp_fetch, msg_fetch), self_fetch)"
  shows
    "(\<not> truthy ok_fetch \<longrightarrow>
        run_template env name tv ov (self, calls)
        = (Inr (PTuple [ok_fetch, resp_fetch, msg_fetch]),
           (self_fetch, calls @ [GetTemplateVariablesSubstitutions name])))
     \<and> (truthy ok_fetch \<and> unpack3 resp_fetch = Inr (t, v, subs)
        \<and> merge_dicts env subs (py_or tv (PDict [])) = Inr subs'
        \<and> build_message_from_template env name (py_or subs' (PDict [])) self_fetch
            = ((message, tov), self_built)
        \<and> extract_preset_configuration_from_overrides env tov
             (self_built, calls @ [GetTemplateVariablesSubstitutions name,
                              MergeDicts subs (py_or tv (PDict [])),
                              BuildMessageFromTemplate name (py_or subs' (PDict []))])
            = (Inr (ok_res, resp_res, msg_res), (self_res, calls_res)) \<longrightarrow>
          (calls_res = calls @ [GetTemplateVariablesSubstitutions name,
                             MergeDicts subs (py_or tv (PDict [])),
                             BuildMessageFromTemplate name (py_or subs' (PDict []))]
           \<or> (\<exists>p. calls_res = calls @ [GetTemplateVariablesSubstitutions name,
                                     MergeDicts subs (py_or tv (PDict [])),
                                     BuildMessageFromTemplate name (py_or subs' (PDict [])),
                                     ActivatePreset p]))
          \<and> (\<not> truthy ok_res \<longrightarrow>
               run_template env name tv ov (self, calls)
               = (Inr (PTuple [ok_res, PTuple [message, PNone, tov], msg_res]), (self_res, calls_res)))
          \<and> (truthy ok_res \<and> resp_res = PTuple [pn, po, tov'] \<and> truthy pn
              \<and> set_override_llm env pn po self_res = ((ok_llm, llm, msg_llm), self_llm)
              \<and> \<not> truthy ok_llm \<longrightarrow>
               run_template env name tv ov (self, calls)
               = (Inr (PTuple [ok_llm, llm, msg_llm]), (self_llm, calls_res @ [SetOverrideLlm pn po]))))"
proof -
  let ?cs = "calls @ [GetTemplateVariablesSubstitutions name,
                      MergeDicts subs (py_or tv (PDict [])),
                      BuildMessageFromTemplate name (py_or subs' (PDict []))]"
  have returned:
    "(\<not> truthy ok_fetch \<longrightarrow>
        run_template env name tv ov (self, calls)
        = (Inr (PTuple [ok_fetch, resp_fetch, msg_fetch]),
           (self_fetch, calls @ [GetTemplateVariablesSubstitutions name])))
     \<and> (truthy ok_fetch \<and> unpack3 resp_fetch = Inr (t, v, subs)
        \<and> merge_dicts env subs (py_or tv (PDict [])) = Inr subs'
        \<and> build_message_from_template env name (py_or subs' (PDict [])) self_fetch
            = ((message, tov), self_built)
        \<and> extract_preset_configuration_from_overrides env tov (self_built, ?cs)
            = (Inr (ok_res, resp_res, msg_res), (self_res, calls_res)) \<longrightarrow>
          (\<not> truthy ok_res \<longrightarrow>
               run_template env name tv ov (self, calls)
               = (Inr (PTuple [ok_res, PTuple [message, PNone, tov], msg_res]), (self_res, calls_res)))
          \<and> (truthy ok_res \<and> resp_res = PTuple [pn, po, tov'] \<and> truthy pn
              \<and> set_override_llm env pn po self_res = ((ok_llm, llm, msg_llm), self_llm)
              \<and> \<not> truthy ok_llm \<longrightarrow>
               run_template env name tv ov (self, calls)
               = (Inr (PTuple [ok_llm, llm, msg_llm]), (self_llm, calls_res @ [SetOverrideLlm pn po]))))"
    using fetch
    by (auto simp add: run_template_def run_template_setup_def prog_defs Let_def unpack3_def
          split: prod.splits)
  have recorded:
    "calls_res = ?cs \<or> (\<exists>p. calls_res = ?cs @ [ActivatePreset p])"
    if "extract_preset_configuration_from_overrides env tov (self_built, ?cs)
        = (Inr (ok_res, resp_res, msg_res), (self_res, calls_res))"
    using extract_calls [of env tov self_built ?cs] that by simp
  show ?thesis
    using returned recorded by simp
qed

theorem run_template_short_circuit_witness:
  "run_template (example_env (PBool False) (PDict []) (PBool True))
     (PStr ''greet'') PNone PNone (example_backend PNone (PBool False), [])
   = (Inr (PTuple [PBool False,
                   PTuple [PObj 0, PList [PStr ''name''], PDict [(''name'', PStr ''world'')]],
                   PStr ''Loaded template'']),
      (example_backend PNone (PBool False),
       [GetTemplateVariablesSubstitutions (PStr ''greet'')]))
   \<and> run_template
       (example_env (PBool True)
          (PDict [(''request_overrides'',
                   PDict [(''preset_overrides'', PDict [(''temperature'', PInt 0)])])])
          (PBool True))
       (PStr ''greet'') PNone PNone (example_backend PNone (PBool False), [])
     = (Inr (PTuple [PBool False,
                     PTuple [PStr ''Hello'', PNone,
                             PDict [(''request_overrides'',
                                     PDict [(''preset_overrides'',
                                             PDict [(''temperature'', PInt 0)])])]],
                     PStr ''No active preset to override'']),
        (example_backend PNone (PBool False),
         [GetTemplateVariablesSubstitutions (PStr ''greet''),
          MergeDicts (PDict [(''name'', PStr ''world'')]) (PDict []),
          BuildMessageFromTemplate (PStr ''greet'') (PDict [(''name'', PStr ''world'')])]))
   \<and> run_template
       (example_env (PBool True)
          (PDict [(''request_overrides'', PDict [(''preset'', PStr ''gpt'')])])
          (PBool False))
       (PStr ''greet'') PNone PNone (example_backend PNone (PBool False), [])
     = (Inr (PTuple [PBool False, PObj 1, PStr ''Override LLM'']),
        (example_backend PNone (PBool False),
         [GetTemplateVariablesSubstitutions (PStr ''greet''),
          MergeDicts (PDict [(''name'', PStr ''world'')]) (PDict []),
          BuildMessageFromTemplate (PStr ''greet'') (PDict [(''name'', PStr ''world'')]),
          SetOverrideLlm (PStr ''gpt'') PNone]))"
proof (intro conjI)
  let ?B = "example_backend PNone (PBool False)"
  let ?fetched = "PTuple [PObj 0, PList [PStr ''name''], PDict [(''name'', PStr ''world'')]]"
  let ?subs = "PDict [(''name'', PStr ''world'')]"
  let ?cs = "[GetTemplateVariablesSubstitutions (PStr ''greet''),
              MergeDicts ?subs (PDict []),
              BuildMessageFromTemplate (PStr ''greet'') ?subs]"
  let ?EA = "example_env (PBool False) (PDict []) (PBool True)"
  let ?TB = "PDict [(''request_overrides'',
                     PDict [(''preset_overrides'', PDict [(''temperature'', PInt 0)])])]"
  let ?EB = "example_env (PBool True) ?TB (PBool True)"
  let ?TC = "PDict [(''request_overrides'', PDict [(''preset'', PStr ''gpt'')])]"
  let ?EC = "example_env (PBool True) ?TC (PBool False)"
  show "run_template ?EA (PStr ''greet'') PNone PNone (?B, [])
        = (Inr (PTuple [PBool False, ?fetched, PStr ''Loaded template'']),
           (?B, [GetTemplateVariablesSubstitutions (PStr ''greet'')]))"
    using run_template_short_circuit
      [where env = ?EA and name = "PStr ''greet''" and self = ?B and ok_fetch = "PBool False"
         and resp_fetch = ?fetched and msg_fetch = "PStr ''Loaded template''" and self_fetch = ?B
         and tv = PNone and ov = PNone and calls = "[]", THEN conjunct1]
    by (simp add: example_env_def)
  show "run_template ?EB (PStr ''greet'') PNone PNone (?B, [])
        = (Inr (PTuple [PBool False, PTuple [PStr ''Hello'', PNone, ?TB],
                        PStr ''No active preset to override'']),
           (?B, ?cs))"
    using run_template_short_circuit
      [where env = ?EB and name = "PStr ''greet''" and self = ?B and ok_fetch = "PBool True"
         and resp_fetch = ?fetched and msg_fetch = "PStr ''Loaded template''" and self_fetch = ?B
         and tv = PNone and ov = PNone and calls = "[]"
         and t = "PObj 0" and v = "PList [PStr ''name'']" and subs = ?subs and subs' = ?subs
         and message = "PStr ''Hello''" and tov = ?TB and self_built = ?B
         and ok_res = "PBool False" and resp_res = "PTuple [PNone, PNone, ?TB]"
         and msg_res = "PStr ''No active preset to override''" and self_res = ?B and calls_res = ?cs,
       THEN conjunct2]
    by (simp add: example_env_def example_backend_def unpack3_def py_or_def
          merge_dicts_spec_def extract_preset_configuration_from_overrides_def prog_defs)
  show "run_template ?EC (PStr ''greet'') PNone PNone (?B, [])
        = (Inr (PTuple [PBool False, PObj 1, PStr ''Override LLM'']),
           (?B, [GetTemplateVariablesSubstitutions (PStr ''greet''),
                 MergeDicts ?subs (PDict []),
                 BuildMessageFromTemplate (PStr ''greet'') ?subs,
                 SetOverrideLlm (PStr ''gpt'') PNone]))"
    using run_template_short_circuit
      [where env = ?EC and name = "PStr ''greet''" and self = ?B and ok_fetch = "PBool True"
         and resp_fetch = ?fetched and msg_fetch = "PStr ''Loaded template''" and self_fetch = ?B
         and tv = PNone and ov = PNone and calls = "[]"
         and t = "PObj 0" and v = "PList [PStr ''name'']" and subs = ?subs and subs' = ?subs
         and message = "PStr ''Hello''" and tov = ?TC and self_built = ?B
         and ok_res = "PBool True" and resp_res = "PTuple [PStr ''gpt'', PNone, ?TC]"
         and msg_res = "PStr ''Extracted preset configuration from request overrides: <value>''"
         and self_res = ?B and calls_res = ?cs
         and pn = "PStr ''gpt''" and po = PNone and tov' = ?TC
         and ok_llm = "PBool False" and llm = "PObj 1" and msg_llm = "PStr ''Override LLM''"
         and self_llm = ?B,
       THEN conjunct2]
    by (simp add: example_env_def example_backend_def unpack3_def py_or_def
          merge_dicts_spec_def extract_preset_configuration_from_overrides_def prog_defs)
qed

text \<open>
  The counterexample to C2 as stated: the template declares \<^verbatim>\<open>preset_overrides\<close> and the
  backend has no active preset, so the resolver fails with the payload
  \<^verbatim>\<open>(None, None, overrides)\<close>; what \<open>run_template\<close> returns carries another payload,
  \<^verbatim>\<open>('Hello', None, overrides)\<close>, so the resolver's result is not returned as it is.
\<close>

theorem resolver_failure_payload_counterexample:
  "fst (extract_preset_configuration_from_overrides
          (example_env (PBool True)
             (PDict [(''request_overrides'',
                      PDict [(''preset_overrides'', PDict [(''temperature'', PInt 0)])])])
             (PBool True))
          (PDict [(''request_overrides'',
                   PDict [(''preset_overrides'', PDict [(''temperature'', PInt 0)])])])
          (example_backend PNone (PBool False),
           [GetTemplateVariablesSubstitutions (PStr ''greet''),
            MergeDicts (PDict [(''name'', PStr ''world'')]) (PDict []),
            BuildMessageFromTemplate (PStr ''greet'') (PDict [(''name'', PStr ''world'')])]))
   = Inr (PBool False,
          PTuple [PNone, PNone,
                  PDict [(''request_overrides'',
                          PDict [(''preset_overrides'', PDict [(''temperature'', PInt 0)])])]],
          PStr ''No active preset to override'')
   \<and> fst (run_template
            (example_env (PBool True)
               (PDict [(''request_overrides'',
                        PDict [(''preset_overrides'', PDict [(''temperature'', PInt 0)])])])
               (PBool True))
            (PStr ''greet'') PNone PNone (example_backend PNone (PBool False), []))
     \<noteq> Inr (PTuple [PBool False,
                     PTuple [PNone, PNone,
                             PDict [(''request_overrides'',
                                     PDict [(''preset_overrides'',
                                             PDict [(''temperature'', PInt 0)])])]],
                     PStr ''No active preset to override''])"
  by (simp add: run_template_def run_template_setup_def
        extract_preset_configuration_from_overrides_def prog_defs Let_def unpack3_def
        py_or_def merge_dicts_spec_def example_env_def example_backend_def)

text \<open>
  C8, as amended. For every compiled message and every final override payload that is a
  mapping (or is false, and then stands for the empty mapping), \<open>run_template_compiled\<close>
  calls the backend's \<^verbatim>\<open>_ask\<close> method once, with the message and the payload's items as
  keyword arguments, and returns what \<^verbatim>\<open>_ask\<close> returns, unchanged, with the backend as
  \<^verbatim>\<open>_ask\<close> leaves it. \<^verbatim>\<open>_ask\<close> is not one of the methods the base class declares; which
  mode it answers in is the concrete backend's business.
\<close>

theorem run_template_compiled_returns_private_ask:
  assumes "overrides = PDict d \<or> (\<not> truthy overrides \<and> d = [])"
  shows "run_template_compiled env message overrides (self, calls)
         = (Inr (fst (private_ask env message d self)),
            (snd (private_ask env message d self), calls @ [PrivateAsk message d]))"
  using assms
  by (auto simp add: run_template_compiled_def prog_defs py_or_def kwargs_def
        split: prod.splits)

theorem run_template_compiled_returns_private_ask_witness:
  "run_template_compiled (example_env (PBool True) (PDict []) (PBool True)) (PStr ''Hello'')
     (PDict [(''request_overrides'', PDict [(''stream_callback'', PObj 7)])])
     (example_backend PNone (PBool False), [])
   = (Inr (PTuple [PBool True, PStr ''complete'', PStr ''Response received'']),
      (example_backend PNone (PBool False),
       [PrivateAsk (PStr ''Hello'')
          [(''request_overrides'', PDict [(''stream_callback'', PObj 7)])]]))
   \<and> run_template_compiled (example_env (PBool True) (PDict []) (PBool True)) (PStr ''Hello'')
       PNone (example_backend PNone (PBool False), [])
     = (Inr (PTuple [PBool True, PStr ''complete'', PStr ''Response received'']),
        (example_backend PNone (PBool False), [PrivateAsk (PStr ''Hello'') []]))"
  using run_template_compiled_returns_private_ask
    [where overrides = "PDict [(''request_overrides'', PDict [(''stream_callback'', PObj 7)])]"
       and d = "[(''request_overrides'', PDict [(''stream_callback'', PObj 7)])]"
       and env = "example_env (PBool True) (PDict []) (PBool True)"
       and message = "PStr ''Hello''"
       and self = "example_backend PNone (PBool False)" and calls = "[]"]
    run_template_compiled_returns_private_ask
    [where overrides = PNone and d = "[]"
       and env = "example_env (PBool True) (PDict []) (PBool True)"
       and message = "PStr ''Hello''"
       and self = "example_backend PNone (PBool False)" and calls = "[]"]
  by (simp add: example_env_def example_private_ask_def example_backend_def)

text \<open>
  The counterexample to C8 as stated: on a backend whose \<open>stream\<close> attribute is on (as a
  streaming request leaves it), \<open>run_template_compiled\<close> returns the streamed answer of
  \<^verbatim>\<open>_ask\<close>, which is not the result of the non-streaming \<^verbatim>\<open>ask\<close> on the same input.
\<close>

theorem dispatch_is_not_ask_counterexample:
  "fst (run_template_compiled (example_env (PBool True) (PDict []) (PBool True))
          (PStr ''Hello'') (PDict []) (example_backend PNone (PBool True), []))
   = Inr (PTuple [PBool True, PStr ''streamed'', PStr ''Response received''])
   \<and> fst (ask (example_env (PBool True) (PDict []) (PBool True)) (PStr ''Hello'') []
            (example_backend PNone (PBool True)))
     = PTuple [PBool True, PStr ''complete'', PStr ''Response received'']
   \<and> fst (run_template_compiled (example_env (PBool True) (PDict []) (PBool True))
            (PStr ''Hello'') (PDict []) (example_backend PNone (PBool True), []))
     \<noteq> Inr (fst (ask (example_env (PBool True) (PDict []) (PBool True)) (PStr ''Hello'') []
                   (example_backend PNone (PBool True))))"
  by (simp add: run_template_compiled_def prog_defs py_or_def kwargs_def
        example_env_def example_private_ask_def example_backend_def)

section \<open>Merge precedence\<close>

text \<open>
  C4. With \<^verbatim>\<open>merge_dicts\<close> as the spec describes it: the merge of the caller's mapping over
  the template's keeps the keys of both, and on every key gives the caller's value when the
  caller has the key and the template's value otherwise; the template overrides
  \<^verbatim>\<open>{a: 1, b: 2}\<close> merged with the caller's \<^verbatim>\<open>{b: 3, c: 4}\<close> give \<^verbatim>\<open>{a: 1, b: 3, c: 4}\<close>. In
  \<open>run_template\<close> both merges have the template's mapping first and the caller's second:
  the template is compiled with the template's substitutions merged with the caller's
  template variables, and \<^verbatim>\<open>_ask\<close> receives the template's overrides merged with the
  caller's overrides.
\<close>

theorem merge_dicts_caller_wins:
  "(distinct (map fst caller) \<longrightarrow>
      map_of (merge_items declared caller) k
      = (case map_of caller k of Some v \<Rightarrow> Some v | None \<Rightarrow> map_of declared k))
   \<and> fst ` set (merge_items declared caller) = fst ` set declared \<union> fst ` set caller
   \<and> merge_dicts_spec (PDict [(''a'', PInt 1), (''b'', PInt 2)])
        (PDict [(''b'', PInt 3), (''c'', PInt 4)])
      = Inr (PDict [(''a'', PInt 1), (''b'', PInt 3), (''c'', PInt 4)])
   \<and> (merge_dicts env = merge_dicts_spec
      \<and> get_template_variables_substitutions env name self
          = ((ok_fetch, PTuple [t, v, PDict subs], msg_fetch), self_fetch)
      \<and> truthy ok_fetch
      \<and> run_template_setup env name (PDict (merge_items subs tv))
           (self_fetch, calls @ [GetTemplateVariablesSubstitutions name,
                                 MergeDicts (PDict subs) (PDict tv)])
          = (Inr (ok_setup, PTuple [message, PDict tov], msg_setup), (self_setup, calls_setup))
      \<and> truthy ok_setup
     \<longrightarrow> run_template env name (PDict tv) (PDict ov) (self, calls)
         = (Inr (fst (private_ask env message (merge_items tov ov) self_setup)),
            (snd (private_ask env message (merge_items tov ov) self_setup),
             calls_setup @ [MergeDicts (PDict tov) (PDict ov),
                            PrivateAsk message (merge_items tov ov)])))"
proof (intro conjI impI)
  assume "distinct (map fst caller)"
  then show "map_of (merge_items declared caller) k
      = (case map_of caller k of Some v \<Rightarrow> Some v | None \<Rightarrow> map_of declared k)"
    by (rule map_of_merge_items)
next
  show "fst ` set (merge_items declared caller) = fst ` set declared \<union> fst ` set caller"
    by (rule keys_merge_items)
next
  show "merge_dicts_spec (PDict [(''a'', PInt 1), (''b'', PInt 2)])
        (PDict [(''b'', PInt 3), (''c'', PInt 4)])
      = Inr (PDict [(''a'', PInt 1), (''b'', PInt 3), (''c'', PInt 4)])"
    by (simp add: merge_dicts_spec_def)
next
  assume "merge_dicts env = merge_dicts_spec
      \<and> get_template_variables_substitutions env name self
          = ((ok_fetch, PTuple [t, v, PDict subs], msg_fetch), self_fetch)
      \<and> truthy ok_fetch
      \<and> run_template_setup env name (PDict (merge_items subs tv))
           (self_fetch, calls @ [GetTemplateVariablesSubstitutions name,
                                 MergeDicts (PDict subs) (PDict tv)])
          = (Inr (ok_setup, PTuple [message, PDict tov], msg_setup), (self_setup, calls_setup))
      \<and> truthy ok_setup"
  then show "run_template env name (PDict tv) (PDict ov) (self, calls)
         = (Inr (fst (private_ask env message (merge_items tov ov) self_setup)),
            (snd (private_ask env message (merge_items tov ov) self_setup),
             calls_setup @ [MergeDicts (PDict tov) (PDict ov),
                            PrivateAsk message (merge_items tov ov)]))"
    by (auto simp add: run_template_def prog_defs Let_def unpack3_def unpack2_def py_or_def
          merge_dicts_spec_def run_template_compiled_def kwargs_def split: prod.splits)
qed

theorem merge_dicts_caller_wins_witness:
  "map_of (merge_items [(''a'', PInt 1), (''b'', PInt 2)] [(''b'', PInt 3), (''c'', PInt 4)]) ''b''
   = Some (PInt 3)
   \<and> run_template
       (example_env (PBool True) (PDict [(''a'', PInt 1), (''b'', PInt 2)]) (PBool True))
       (PStr ''greet'') (PDict [(''name'', PStr ''Ada'')])
       (PDict [(''b'', PInt 3), (''c'', PInt 4)])
       (example_backend PNone (PBool False), [])
     = (Inr (PTuple [PBool True, PStr ''complete'', PStr ''Response received'']),
        (example_backend PNone (PBool False),
         [GetTemplateVariablesSubstitutions (PStr ''greet''),
          MergeDicts (PDict [(''name'', PStr ''world'')]) (PDict [(''name'', PStr ''Ada'')]),
          BuildMessageFromTemplate (PStr ''greet'') (PDict [(''name'', PStr ''Ada'')]),
          MergeDicts (PDict [(''a'', PInt 1), (''b'', PInt 2)])
            (PDict [(''b'', PInt 3), (''c'', PInt 4)]),
          PrivateAsk (PStr ''Hello'') [(''a'', PInt 1), (''b'', PInt 3), (''c'', PInt 4)]]))"
proof (intro conjI)
  let ?B = "example_backend PNone (PBool False)"
  let ?T = "[(''a'', PInt 1), (''b'', PInt 2)]"
  let ?E = "example_env (PBool True) (PDict ?T) (PBool True)"
  show "map_of (merge_items ?T [(''b'', PInt 3), (''c'', PInt 4)]) ''b'' = Some (PInt 3)"
    using merge_dicts_caller_wins
      [where declared = ?T and caller = "[(''b'', PInt 3), (''c'', PInt 4)]" and k = "''b''",
       THEN conjunct1]
    by simp
  show "run_template ?E (PStr ''greet'') (PDict [(''name'', PStr ''Ada'')])
          (PDict [(''b'', PInt 3), (''c'', PInt 4)]) (?B, [])
        = (Inr (PTuple [PBool True, PStr ''complete'', PStr ''Response received'']),
           (?B,
            [GetTemplateVariablesSubstitutions (PStr ''greet''),
             MergeDicts (PDict [(''name'', PStr ''world'')]) (PDict [(''name'', PStr ''Ada'')]),
             BuildMessageFromTemplate (PStr ''greet'') (PDict [(''name'', PStr ''Ada'')]),
             MergeDicts (PDict ?T) (PDict [(''b'', PInt 3), (''c'', PInt 4)]),
             PrivateAsk (PStr ''Hello'') [(''a'', PInt 1), (''b'', PInt 3), (''c'', PInt 4)]]))"
    using merge_dicts_caller_wins
      [where env = ?E and name = "PStr ''greet''" and self = ?B and calls = "[]"
         and ok_fetch = "PBool True" and t = "PObj 0" and v = "PList [PStr ''name'']"
         and subs = "[(''name'', PStr ''world'')]" and msg_fetch = "PStr ''Loaded template''"
         and self_fetch = ?B and tv = "[(''name'', PStr ''Ada'')]"
         and ok_setup = "PBool True" and message = "PStr ''Hello''" and tov = ?T
         and msg_setup = "PStr ''Set up of template run complete: <value>''"
         and self_setup = ?B
         and calls_setup = "[GetTemplateVariablesSubstitutions (PStr ''greet''),
             MergeDicts (PDict [(''name'', PStr ''world'')]) (PDict [(''name'', PStr ''Ada'')]),
             BuildMessageFromTemplate (PStr ''greet'') (PDict [(''name'', PStr ''Ada'')])]"
         and ov = "[(''b'', PInt 3), (''c'', PInt 4)]",
       THEN conjunct2, THEN conjunct2, THEN conjunct2]
    by (simp add: example_env_def example_backend_def example_private_ask_def
          run_template_setup_def extract_preset_configuration_from_overrides_def prog_defs
          unpack3_def py_or_def)
qed

end
